theory Spec2Isabelle
  imports Main
begin

section \<open>Values exchanged with the HTTP layer\<close>

text \<open>
  The backend \<^verbatim>\<open>app_kernel.py\<close> is a set of request handlers. Each handler is embedded
  as a function from an environment of external collaborators, the request and a world
  (store contents, the process-wide configuration, the log of external calls made so far)
  to a result and the world afterwards. A raised exception is the \<open>Inl\<close> branch.
\<close>

datatype json =
    JNull
  | JBool bool
  | JInt int
  | JStr string
  | JList "json list"
  | JDict "(string \<times> json) list"

datatype exn =
    HTTPException nat json
  | Exception string

text \<open>Python truthiness of an \<^verbatim>\<open>Optional[str]\<close>: \<^verbatim>\<open>None\<close> and the empty string are falsy.\<close>

fun truthy :: "string option \<Rightarrow> bool" where
  "truthy None = False"
| "truthy (Some s) = (s \<noteq> [])"

text \<open>\<^verbatim>\<open>str(b)\<close> of a Python bool, as an f-string renders it.\<close>

fun str_bool :: "bool \<Rightarrow> string" where
  "str_bool True = ''True''"
| "str_bool False = ''False''"

fun json_opt_str :: "string option \<Rightarrow> json" where
  "json_opt_str None = JNull"
| "json_opt_str (Some s) = JStr s"

section \<open>Data model\<close>

text \<open>
  Modelled from the spec: the classes of \<^verbatim>\<open>common.models.messages_kernel\<close> (Plan, Step,
  AgentMessage, PlanWithSteps, HumanFeedback, HumanClarification, UserLanguage, AgentType)
  are imported by \<^verbatim>\<open>app_kernel.py\<close> but are not part of the sources; the records below
  carry the fields the spec's data model lists. Field names carry a suffix naming their
  record, since several records share a field name.
\<close>

datatype step_status = Planned | AwaitingApproval | Approved | Rejected | Completed | Failed

datatype plan_status = Created | InProgress | AwaitingHuman | PlanCompleted | PlanFailed

datatype AgentType = HUMAN | GROUP_CHAT_MANAGER

record step =
  id_s :: string
  plan_id_s :: string
  action_s :: string
  agent_s :: string
  status_s :: step_status
  agent_reply_s :: "string option"
  human_feedback_s :: "string option"
  updated_action_s :: "string option"

record plan =
  id_p :: string
  session_id_p :: string
  team_id_p :: string
  user_id_p :: string
  initial_goal_p :: string
  overall_status_p :: plan_status

text \<open>\<^verbatim>\<open>class PlanWithSteps(Plan)\<close>: a Plan extended by its steps and the step counts.\<close>

record plan_with_steps = plan +
  steps :: "step list"
  total_steps :: nat
  count_planned :: nat
  count_awaiting_approval :: nat
  count_approved :: nat
  count_rejected :: nat
  count_completed :: nat
  count_failed :: nat

record agent_message =
  id_m :: string
  session_id_m :: string
  plan_id_m :: string
  step_id_m :: "string option"
  content_m :: string
  source_m :: string
  timestamp_m :: string

record human_feedback =
  step_id :: "string option"
  plan_id_f :: string
  session_id_f :: string
  approved :: bool
  human_feedback_f :: "string option"
  updated_action_f :: "string option"
  user_id_f :: string

record human_clarification =
  plan_id_c :: string
  session_id_c :: string
  human_clarification_c :: string
  user_id_c :: string

record user_language =
  language :: string

record team =
  id_t :: string

record request =
  headers :: "(string \<times> string) list"

record user_details =
  user_principal_id :: "string option"

datatype client = AIProjectClient nat

text \<open>\<^verbatim>\<open>PlanWithSteps(**plan.model_dump(), steps=steps)\<close>; the counts start at their default 0.\<close>

definition PlanWithSteps :: "plan \<Rightarrow> step list \<Rightarrow> plan_with_steps" where
  "PlanWithSteps p ss = plan.extend p (plan_with_steps.fields ss 0 0 0 0 0 0 0)"

text \<open>
  Modelled from the spec: \<^verbatim>\<open>PlanWithSteps.update_step_counts\<close> is not part of the sources.
  The spec: the step counts are counts per status, recomputed fresh from the steps the
  record carries.
\<close>

definition count_status :: "step_status \<Rightarrow> step list \<Rightarrow> nat" where
  "count_status st ss = length (filter (\<lambda>s. status_s s = st) ss)"

definition update_step_counts :: "plan_with_steps \<Rightarrow> plan_with_steps" where
  "update_step_counts p =
     p\<lparr> total_steps := length (steps p),
        count_planned := count_status Planned (steps p),
        count_awaiting_approval := count_status AwaitingApproval (steps p),
        count_approved := count_status Approved (steps p),
        count_rejected := count_status Rejected (steps p),
        count_completed := count_status Completed (steps p),
        count_failed := count_status Failed (steps p) \<rparr>"

section \<open>External collaborators and the world\<close>

text \<open>
  Every call that leaves \<^verbatim>\<open>app_kernel.py\<close> is logged in the world, in call order.
  \<open>Call_store m\<close> is a call of method \<open>m\<close> of the memory store.
\<close>

datatype event =
    Call_rai_success string bool
  | Call_get_authenticated_user_details
  | Call_track_event string "(string \<times> json) list"
  | Call_get_database string
  | Call_get_ai_project_client
  | Call_create_agent AgentType string string
  | Call_create_all_agents string string
  | Call_handle_human_feedback
  | Call_handle_human_clarification
  | Call_client_close client
  | Call_store string
  | Call_format_dates_in_messages string
  | Call_set_user_local_browser_language string
  | Call_get_user_local_browser_language
  | Call_logging_error
  | Call_logging_info
  | Call_print string

text \<open>
  The world: the contents \<open>db\<close> of the persistent store (of any type \<open>'st\<close>), the
  browser language held by the module-level \<^verbatim>\<open>config\<close> object, one per process, and the
  calls made so far.
\<close>

record 'st world =
  db :: 'st
  user_local_browser_language :: string
  calls :: "event list"

definition emit :: "event \<Rightarrow> 'st world \<Rightarrow> 'st world" where
  "emit e w = w\<lparr>calls := calls w @ [e]\<rparr>"

text \<open>
  An agent handle. A handler works on the store and either returns (\<open>None\<close>) or raises
  (\<open>Some msg\<close>); the store it leaves behind is returned in both cases.
\<close>

record 'st agent =
  handle_human_feedback :: "human_feedback \<Rightarrow> 'st \<Rightarrow> string option \<times> 'st"
  handle_human_clarification :: "human_clarification \<Rightarrow> 'st \<Rightarrow> string option \<times> 'st"

text \<open>
  The handle \<^verbatim>\<open>DatabaseFactory.get_database\<close> returns: the read methods
  \<^verbatim>\<open>app_kernel.py\<close> calls, each a query on the store contents.
\<close>

record 'st memory_store =
  get_plan_by_plan_id :: "'st \<Rightarrow> string \<Rightarrow> plan option"
  get_steps_by_plan :: "'st \<Rightarrow> string \<Rightarrow> step list"
  get_data_by_type_and_session_id :: "'st \<Rightarrow> string \<Rightarrow> string \<Rightarrow> agent_message list"
  get_data_by_type :: "'st \<Rightarrow> string \<Rightarrow> agent_message list"
  get_current_team :: "'st \<Rightarrow> string \<Rightarrow> team option"
  get_all_plans_by_team_id :: "'st \<Rightarrow> string \<Rightarrow> plan list"
  get_steps_for_plan :: "'st \<Rightarrow> string \<Rightarrow> step list"

text \<open>
  The collaborators, none of them part of the sources, taken as parameters:
  the Identity Resolver, the Content Safety Gate, the store factory, the execution-client
  factory (which may raise) and the client's \<^verbatim>\<open>close\<close> (which may raise), the Agent
  Directory (a lookup: it yields a handle or nothing) and the date formatter.
\<close>

record 'st env =
  get_authenticated_user_details :: "(string \<times> string) list \<Rightarrow> user_details"
  rai_success :: "string \<Rightarrow> bool \<Rightarrow> bool"
  get_database :: "string \<Rightarrow> 'st memory_store"
  get_ai_project_client :: "string + client"
  client_close :: "client \<Rightarrow> string option"
  create_agent ::
    "AgentType \<Rightarrow> string \<Rightarrow> string \<Rightarrow> 'st \<Rightarrow> client option \<Rightarrow> 'st agent option"
  create_all_agents ::
    "string \<Rightarrow> string \<Rightarrow> 'st \<Rightarrow> client option \<Rightarrow> AgentType \<Rightarrow> 'st agent option"
  format_dates_in_messages :: "agent_message list \<Rightarrow> string \<Rightarrow> agent_message list"

text \<open>
  \<^verbatim>\<open>client = None; try: client = config.get_ai_project_client() except Exception: logging.error(...)\<close>
\<close>

definition acquire_client :: "'st env \<Rightarrow> 'st world \<Rightarrow> client option \<times> 'st world" where
  "acquire_client env w =
     (case get_ai_project_client env of
        Inr c \<Rightarrow> (Some c, emit Call_get_ai_project_client w)
      | Inl client_exc \<Rightarrow> (None, emit Call_logging_error (emit Call_get_ai_project_client w)))"

text \<open>
  \<^verbatim>\<open>if client: try: client.close() except Exception as e: logging.error(...)\<close>
\<close>

definition close_client :: "'st env \<Rightarrow> client option \<Rightarrow> 'st world \<Rightarrow> 'st world" where
  "close_client env client w =
     (case client of
        None \<Rightarrow> w
      | Some c \<Rightarrow>
          (case client_close env c of
             None \<Rightarrow> emit (Call_client_close c) w
           | Some e \<Rightarrow> emit Call_logging_error (emit (Call_client_close c) w)))"

section \<open>The request handlers\<close>

subsection \<open>\<^verbatim>\<open>POST /api/user_browser_language\<close> (lines 87-116)\<close>

text \<open>
  Modelled from the spec: \<^verbatim>\<open>config.set_user_local_browser_language\<close> and
  \<^verbatim>\<open>config.get_user_local_browser_language\<close> belong to \<^verbatim>\<open>common.config.app_config\<close>,
  which is not part of the sources; \<^verbatim>\<open>config\<close> is one module-level object, so the
  setter writes and the getter reads one cell of the world. The handler never looks at
  its \<open>request\<close>.
\<close>

definition user_browser_language_endpoint ::
  "'st env \<Rightarrow> user_language \<Rightarrow> request \<Rightarrow> 'st world \<Rightarrow> (exn + json) \<times> 'st world" where
  "user_browser_language_endpoint env user_language request w0 =
     (let w1 = emit (Call_set_user_local_browser_language (language user_language))
                 (w0\<lparr>user_local_browser_language := language user_language\<rparr>);
          w2 = emit Call_logging_info w1
      in (Inr (JDict [(''status'', JStr ''Language received successfully'')]), w2))"

subsection \<open>\<^verbatim>\<open>POST /api/human_feedback\<close> (lines 243-354)\<close>

definition human_feedback_endpoint ::
  "'st env \<Rightarrow> human_feedback \<Rightarrow> request \<Rightarrow> 'st world \<Rightarrow> (exn + json) \<times> 'st world" where
  "human_feedback_endpoint env human_feedback request w0 =
     (let authenticated_user = get_authenticated_user_details env (headers request);
          w1 = emit Call_get_authenticated_user_details w0;
          user_id = user_principal_id authenticated_user;
          no_user =
            (Inl (HTTPException 400 (JStr ''no user'')),
             emit (Call_track_event ''UserIdNotFound''
                     [(''status_code'', JInt 400), (''detail'', JStr ''no user'')]) w1)
      in (case user_id of
            None \<Rightarrow> no_user
          | Some uid \<Rightarrow>
              if uid = [] then no_user
              else
                (let memory_store = get_database env uid;
                     w2 = emit (Call_get_database uid) w1;
                     (client, w3) = acquire_client env w2;
                     human_agent =
                       create_agent env HUMAN (session_id_f human_feedback) uid (db w3) client;
                     w4 = emit (Call_create_agent HUMAN (session_id_f human_feedback) uid) w3
                 in (case human_agent of
                       None \<Rightarrow>
                         (Inl (HTTPException 404 (JStr ''Agent not found'')),
                          emit (Call_track_event ''AgentNotFound''
                                  [(''status'', JStr ''Agent not found''),
                                   (''session_id'', JStr (session_id_f human_feedback)),
                                   (''step_id'', json_opt_str (step_id human_feedback))]) w4)
                     | Some agent \<Rightarrow>
                         (let w5 = emit Call_handle_human_feedback w4;
                              (raised, db') = handle_human_feedback agent human_feedback (db w5);
                              w6 = w5\<lparr>db := db'\<rparr>
                          in (case raised of
                                Some e \<Rightarrow> (Inl (Exception e), w6)
                              | None \<Rightarrow>
                                  (Inr (JDict [(''status'', JStr ''Feedback received''),
                                               (''session_id'', JStr (session_id_f human_feedback)),
                                               (''step_id'', json_opt_str (step_id human_feedback))]),
                                   close_client env client
                                     (emit (Call_track_event ''Completed Feedback received''
                                              [(''status'', JStr ''Feedback received''),
                                               (''session_id'', JStr (session_id_f human_feedback)),
                                               (''step_id'', json_opt_str (step_id human_feedback))])
                                        w6))))))))"

subsection \<open>\<^verbatim>\<open>POST /api/human_clarification_on_plan\<close> (lines 357-484)\<close>

definition rai_detail :: json where
  "rai_detail = JDict
     [(''error_type'', JStr ''RAI_VALIDATION_FAILED''),
      (''message'', JStr ''Clarification Safety Check Failed''),
      (''description'', JStr ''Your clarification contains content that doesn't meet our safety guidelines. Please provide a more appropriate clarification.''),
      (''suggestions'', JList
         [JStr ''Use clear and professional language'',
          JStr ''Avoid potentially harmful or inappropriate content'',
          JStr ''Focus on providing constructive feedback or clarification'',
          JStr ''Ensure your message complies with content policies'']),
      (''user_action'', JStr ''Please revise your clarification and try again'')]"

text \<open>
  The Content Safety Gate is asked first (line 404), the Identity Resolver after it
  (line 430). When no agent is found, the handler builds the telemetry attributes from
  \<^verbatim>\<open>human_clarification.step_id\<close> (line 459); a HumanClarification has no such field
  in the spec's data model, so reading it raises \<^verbatim>\<open>AttributeError\<close> before the event
  is tracked and before the 404 is raised.
\<close>

definition human_clarification_endpoint ::
  "'st env \<Rightarrow> human_clarification \<Rightarrow> request \<Rightarrow> 'st world \<Rightarrow> (exn + json) \<times> 'st world" where
  "human_clarification_endpoint env human_clarification request w0 =
     (let w1 = emit (Call_rai_success (human_clarification_c human_clarification) False) w0
      in if \<not> rai_success env (human_clarification_c human_clarification) False then
           (Inl (HTTPException 400 rai_detail),
            emit (Call_track_event ''RAI failed''
                    [(''status'', JStr ''Clarification rejected - RAI validation failed''),
                     (''description'', JStr (human_clarification_c human_clarification)),
                     (''session_id'', JStr (session_id_c human_clarification))])
              (emit (Call_print ''RAI failed'') w1))
         else
           (let authenticated_user = get_authenticated_user_details env (headers request);
                w2 = emit Call_get_authenticated_user_details w1;
                user_id = user_principal_id authenticated_user;
                no_user =
                  (Inl (HTTPException 400 (JStr ''no user'')),
                   emit (Call_track_event ''UserIdNotFound''
                           [(''status_code'', JInt 400), (''detail'', JStr ''no user'')]) w2)
            in (case user_id of
                  None \<Rightarrow> no_user
                | Some uid \<Rightarrow>
                    if uid = [] then no_user
                    else
                      (let memory_store = get_database env uid;
                           w3 = emit (Call_get_database uid) w2;
                           (client, w4) = acquire_client env w3;
                           human_agent =
                             create_agent env HUMAN (session_id_c human_clarification) uid (db w4) client;
                           w5 = emit (Call_create_agent HUMAN (session_id_c human_clarification) uid) w4
                       in (case human_agent of
                             None \<Rightarrow> (Inl (Exception ''AttributeError''), w5)
                           | Some agent \<Rightarrow>
                               (let w6 = emit Call_handle_human_clarification w5;
                                    (raised, db') =
                                      handle_human_clarification agent human_clarification (db w6);
                                    w7 = w6\<lparr>db := db'\<rparr>
                                in (case raised of
                                      Some e \<Rightarrow> (Inl (Exception e), w7)
                                    | None \<Rightarrow>
                                        (Inr (JDict [(''status'', JStr ''Clarification received''),
                                                     (''session_id'', JStr (session_id_c human_clarification))]),
                                         close_client env client
                                           (emit (Call_track_event ''Completed Human clarification on the plan''
                                                    [(''status'', JStr ''Clarification received''),
                                                     (''session_id'', JStr (session_id_c human_clarification))])
                                              w7)))))))))"

subsection \<open>\<^verbatim>\<open>POST /api/approve_step_or_steps\<close> (lines 487-591)\<close>

text \<open>
  \<^verbatim>\<open>agents[AgentType.GROUP_CHAT_MANAGER.value]\<close> raises \<^verbatim>\<open>KeyError\<close> when the dictionary
  has no such entry. The client is closed before the status is chosen.
\<close>

definition approve_step_endpoint ::
  "'st env \<Rightarrow> human_feedback \<Rightarrow> request \<Rightarrow> 'st world \<Rightarrow> (exn + json) \<times> 'st world" where
  "approve_step_endpoint env human_feedback request w0 =
     (let authenticated_user = get_authenticated_user_details env (headers request);
          w1 = emit Call_get_authenticated_user_details w0;
          user_id = user_principal_id authenticated_user;
          no_user =
            (Inl (HTTPException 400 (JStr ''no user'')),
             emit (Call_track_event ''UserIdNotFound''
                     [(''status_code'', JInt 400), (''detail'', JStr ''no user'')]) w1)
      in (case user_id of
            None \<Rightarrow> no_user
          | Some uid \<Rightarrow>
              if uid = [] then no_user
              else
                (let memory_store = get_database env uid;
                     w2 = emit (Call_get_database uid) w1;
                     (client, w3) = acquire_client env w2;
                     agents = create_all_agents env (session_id_f human_feedback) uid (db w3) client;
                     w4 = emit (Call_create_all_agents (session_id_f human_feedback) uid) w3
                 in (case agents GROUP_CHAT_MANAGER of
                       None \<Rightarrow> (Inl (Exception ''KeyError''), w4)
                     | Some group_chat_manager \<Rightarrow>
                         (let w5 = emit Call_handle_human_feedback w4;
                              (raised, db') =
                                handle_human_feedback group_chat_manager human_feedback (db w5);
                              w6 = w5\<lparr>db := db'\<rparr>
                          in (case raised of
                                Some e \<Rightarrow> (Inl (Exception e), w6)
                              | None \<Rightarrow>
                                  (let w7 = close_client env client w6;
                                       all_steps =
                                         (Inr (JDict [(''status'', JStr ''All steps approved'')]),
                                          emit (Call_track_event ''Completed Human clarification without step_id''
                                                  [(''status'', JStr ''All steps approved'')]) w7)
                                   in (case step_id human_feedback of
                                         None \<Rightarrow> all_steps
                                       | Some sid \<Rightarrow>
                                           if sid = [] then all_steps
                                           else
                                             (let status =
                                                    ''Step '' @ sid @ '' - Approval:''
                                                      @ str_bool (approved human_feedback) @ ''.''
                                              in (Inr (JDict [(''status'', JStr status)]),
                                                  emit (Call_track_event ''Completed Human clarification with step_id''
                                                          [(''status'', JStr status)]) w7))))))))))"

subsection \<open>\<^verbatim>\<open>GET /api/plans\<close> (lines 595-713)\<close>

text \<open>
  The handler returns a Python list: \<^verbatim>\<open>[plan_with_steps, formatted_messages]\<close> for one
  plan, \<^verbatim>\<open>[]\<close> otherwise. \<^verbatim>\<open>asyncio.gather\<close> returns the results in the order of its
  arguments, so the fan-out is a map over the plans.
\<close>

datatype plans_item =
    Item_plan plan_with_steps
  | Item_messages "agent_message list"

definition get_plans ::
  "'st env \<Rightarrow> request \<Rightarrow> string option \<Rightarrow> 'st world \<Rightarrow> (exn + plans_item list) \<times> 'st world" where
  "get_plans env request plan_id w0 =
     (let authenticated_user = get_authenticated_user_details env (headers request);
          w1 = emit Call_get_authenticated_user_details w0;
          user_id = user_principal_id authenticated_user;
          no_user =
            (Inl (HTTPException 400 (JStr ''no user'')),
             emit (Call_track_event ''UserIdNotFound''
                     [(''status_code'', JInt 400), (''detail'', JStr ''no user'')]) w1)
      in (case user_id of
            None \<Rightarrow> no_user
          | Some uid \<Rightarrow>
              if uid = [] then no_user
              else
                (let memory_store = get_database env uid;
                     w2 = emit (Call_get_database uid) w1;
                     team_listing =
                       (let current_team = get_current_team memory_store (db w2) uid;
                            w3 = emit (Call_store ''get_current_team'') w2
                        in (case current_team of
                              None \<Rightarrow> (Inr [], w3)
                            | Some t \<Rightarrow>
                                (let all_plans = get_all_plans_by_team_id memory_store (db w3) (id_t t);
                                     w4 = emit (Call_store ''get_all_plans_by_team_id'') w3;
                                     steps_for_all_plans =
                                       map (\<lambda>p. get_steps_by_plan memory_store (db w4) (id_p p)) all_plans;
                                     w5 = fold (\<lambda>p. emit (Call_store ''get_steps_by_plan'')) all_plans w4;
                                     list_of_plans_with_steps =
                                       fold (\<lambda>(p, ss) acc. acc @ [update_step_counts (PlanWithSteps p ss)])
                                         (zip all_plans steps_for_all_plans) []
                                 in (Inr [], w5))))
                 in (case plan_id of
                       None \<Rightarrow> team_listing
                     | Some pid \<Rightarrow>
                         if pid = [] then team_listing
                         else
                           (let found = get_plan_by_plan_id memory_store (db w2) pid;
                                w3 = emit (Call_store ''get_plan_by_plan_id'') w2
                            in (case found of
                                  None \<Rightarrow>
                                    (Inl (HTTPException 404 (JStr ''Plan not found'')),
                                     emit (Call_track_event ''GetPlanBySessionNotFound''
                                             [(''status_code'', JInt 400),
                                              (''detail'', JStr ''Plan not found'')]) w3)
                                | Some p \<Rightarrow>
                                    (let ss = get_steps_by_plan memory_store (db w3) (id_p p);
                                         w4 = emit (Call_store ''get_steps_by_plan'') w3;
                                         messages =
                                           get_data_by_type_and_session_id memory_store (db w4)
                                             ''agent_message'' (session_id_p p);
                                         w5 = emit (Call_store ''get_data_by_type_and_session_id'') w4;
                                         plan_with_steps = update_step_counts (PlanWithSteps p ss);
                                         lang = user_local_browser_language w5;
                                         w6 = emit Call_get_user_local_browser_language w5;
                                         formatted_messages = format_dates_in_messages env messages lang;
                                         w7 = emit (Call_format_dates_in_messages lang) w6
                                     in (Inr [Item_plan plan_with_steps, Item_messages formatted_messages],
                                         w7))))))))"

subsection \<open>\<^verbatim>\<open>GET /api/steps/{plan_id}\<close> (lines 715-777)\<close>

definition get_steps_by_plan_endpoint ::
  "'st env \<Rightarrow> string \<Rightarrow> request \<Rightarrow> 'st world \<Rightarrow> (exn + step list) \<times> 'st world" where
  "get_steps_by_plan_endpoint env plan_id request w0 =
     (let authenticated_user = get_authenticated_user_details env (headers request);
          w1 = emit Call_get_authenticated_user_details w0;
          user_id = user_principal_id authenticated_user;
          no_user =
            (Inl (HTTPException 400 (JStr ''no user'')),
             emit (Call_track_event ''UserIdNotFound''
                     [(''status_code'', JInt 400), (''detail'', JStr ''no user'')]) w1)
      in (case user_id of
            None \<Rightarrow> no_user
          | Some uid \<Rightarrow>
              if uid = [] then no_user
              else
                (let memory_store = get_database env uid;
                     w2 = emit (Call_get_database uid) w1;
                     ss = get_steps_for_plan memory_store (db w2) plan_id;
                     w3 = emit (Call_store ''get_steps_for_plan'') w2
                 in (Inr ss, w3))))"

subsection \<open>\<^verbatim>\<open>GET /api/agent_messages/{session_id}\<close> (lines 780-843)\<close>

text \<open>The \<open>session_id\<close> of the path is not passed on to the store (line 842).\<close>

definition get_agent_messages ::
  "'st env \<Rightarrow> string \<Rightarrow> request \<Rightarrow> 'st world \<Rightarrow> (exn + agent_message list) \<times> 'st world" where
  "get_agent_messages env session_id request w0 =
     (let authenticated_user = get_authenticated_user_details env (headers request);
          w1 = emit Call_get_authenticated_user_details w0;
          user_id = user_principal_id authenticated_user;
          no_user =
            (Inl (HTTPException 400 (JStr ''no user'')),
             emit (Call_track_event ''UserIdNotFound''
                     [(''status_code'', JInt 400), (''detail'', JStr ''no user'')]) w1)
      in (case user_id of
            None \<Rightarrow> no_user
          | Some uid \<Rightarrow>
              if uid = [] then no_user
              else
                (let memory_store = get_database env uid;
                     w2 = emit (Call_get_database uid) w1;
                     agent_messages = get_data_by_type memory_store (db w2) ''agent_message'';
                     w3 = emit (Call_store ''get_data_by_type'') w2
                 in (Inr agent_messages, w3))))"

section \<open>The spec's error kinds, as the handlers raise them\<close>

definition Unauthenticated :: exn where
  "Unauthenticated = HTTPException 400 (JStr ''no user'')"

definition AgentNotFound :: exn where
  "AgentNotFound = HTTPException 404 (JStr ''Agent not found'')"

definition PlanNotFound :: exn where
  "PlanNotFound = HTTPException 404 (JStr ''Plan not found'')"

definition ContentRejected :: exn where
  "ContentRejected = HTTPException 400 rai_detail"

section \<open>Reading a handler's effects\<close>

text \<open>The calls a handler added to the log, given the world before and after.\<close>

definition new_calls :: "'st world \<Rightarrow> 'st world \<Rightarrow> event list" where
  "new_calls w w' = drop (length (calls w)) (calls w')"

text \<open>Calls that consult the Agent Directory.\<close>

fun agent_directory_call :: "event \<Rightarrow> bool" where
  "agent_directory_call (Call_create_agent ty sid uid) = True"
| "agent_directory_call (Call_create_all_agents sid uid) = True"
| "agent_directory_call e = False"

text \<open>
  Calls that reach the store: opening it, one of its methods, or an agent handler (the
  only code that may write to it).
\<close>

fun store_call :: "event \<Rightarrow> bool" where
  "store_call (Call_get_database uid) = True"
| "store_call (Call_store m) = True"
| "store_call Call_handle_human_feedback = True"
| "store_call Call_handle_human_clarification = True"
| "store_call e = False"

text \<open>The remediation suggestions an error carries.\<close>

fun suggestions :: "exn \<Rightarrow> json list" where
  "suggestions (HTTPException code (JDict d)) =
     (case map_of d ''suggestions'' of Some (JList xs) \<Rightarrow> xs | _ \<Rightarrow> [])"
| "suggestions e = []"

text \<open>The client handle a request holds, if the factory returned one.\<close>

definition acquired :: "'st env \<Rightarrow> client option" where
  "acquired env = (case get_ai_project_client env of Inr c \<Rightarrow> Some c | Inl e \<Rightarrow> None)"

text \<open>
  A handler's outcome \<open>out\<close> is the failure \<open>e\<close>, reached without touching the store:
  the log only grew, by calls none of which is a store call, and the store is unchanged.
\<close>

definition fails_before_store :: "exn \<Rightarrow> 'st world \<Rightarrow> (exn + 'a) \<times> 'st world \<Rightarrow> bool" where
  "fails_before_store e w out =
     (fst out = Inl e \<and> calls (snd out) = calls w @ new_calls w (snd out)
      \<and> \<not> list_ex store_call (new_calls w (snd out)) \<and> db (snd out) = db w)"

section \<open>A concrete store and concrete collaborators\<close>

text \<open>
  Modelled from the spec: the Plan Store (its queries by plan id, session id and team id)
  is not part of the sources. The in-memory store below and the collaborators after it
  are the concrete inputs of the worked examples; the general theorems hold for every
  store and every collaborator.
\<close>

record store =
  plans_of :: "plan list"
  steps_of :: "step list"
  messages_of :: "agent_message list"
  current_team_of :: "(string \<times> team) list"

definition list_memory_store :: "string \<Rightarrow> store memory_store" where
  "list_memory_store uid =
     \<lparr> get_plan_by_plan_id = (\<lambda>st pid. find (\<lambda>p. id_p p = pid) (plans_of st)),
       get_steps_by_plan = (\<lambda>st pid. filter (\<lambda>s. plan_id_s s = pid) (steps_of st)),
       get_data_by_type_and_session_id =
         (\<lambda>st ty sid. if ty = ''agent_message''
                       then filter (\<lambda>m. session_id_m m = sid) (messages_of st) else []),
       get_data_by_type = (\<lambda>st ty. if ty = ''agent_message'' then messages_of st else []),
       get_current_team = (\<lambda>st u. map_of (current_team_of st) u),
       get_all_plans_by_team_id = (\<lambda>st tid. filter (\<lambda>p. team_id_p p = tid) (plans_of st)),
       get_steps_for_plan = (\<lambda>st pid. filter (\<lambda>s. plan_id_s s = pid) (steps_of st)) \<rparr>"

definition sample_step :: "string \<Rightarrow> string \<Rightarrow> step_status \<Rightarrow> step" where
  "sample_step i p st =
     \<lparr> id_s = i, plan_id_s = p, action_s = ''act'', agent_s = ''Hr_Agent'', status_s = st,
       agent_reply_s = None, human_feedback_s = None, updated_action_s = None \<rparr>"

definition sample_plan :: "string \<Rightarrow> string \<Rightarrow> plan" where
  "sample_plan i s =
     \<lparr> id_p = i, session_id_p = s, team_id_p = ''t1'', user_id_p = ''u1'',
       initial_goal_p = ''goal'', overall_status_p = InProgress \<rparr>"

definition sample_message :: "string \<Rightarrow> string \<Rightarrow> agent_message" where
  "sample_message i s =
     \<lparr> id_m = i, session_id_m = s, plan_id_m = ''p1'', step_id_m = None,
       content_m = ''hello'', source_m = ''Hr_Agent'', timestamp_m = ''2025-07-04'' \<rparr>"

definition sample_store :: store where
  "sample_store =
     \<lparr> plans_of = [sample_plan ''p1'' ''s1'', sample_plan ''p2'' ''s2''],
       steps_of = [sample_step ''a'' ''p1'' Planned, sample_step ''b'' ''p1'' Completed,
                   sample_step ''c'' ''p2'' Approved],
       messages_of = [sample_message ''m1'' ''s1'', sample_message ''m2'' ''s2''],
       current_team_of = [(''u1'', \<lparr>id_t = ''t1''\<rparr>)] \<rparr>"

text \<open>
  A handler that raises on request and otherwise writes the decision to the named step.
\<close>

definition sample_agent :: "store agent" where
  "sample_agent =
     \<lparr> handle_human_feedback =
         (\<lambda>hf st. if human_feedback_f hf = Some ''raise'' then (Some ''RuntimeError'', st)
                   else (None,
                         st\<lparr>steps_of :=
                              map (\<lambda>s. if Some (id_s s) = step_id hf
                                        then s\<lparr>status_s := (if approved hf then Approved else Rejected)\<rparr>
                                        else s)
                                (steps_of st)\<rparr>)),
       handle_human_clarification =
         (\<lambda>hc st. if human_clarification_c hc = ''raise'' then (Some ''RuntimeError'', st)
                   else (None, st)) \<rparr>"

text \<open>A formatter that writes dates the US way for \<^verbatim>\<open>en-US\<close> only.\<close>

definition sample_format :: "agent_message list \<Rightarrow> string \<Rightarrow> agent_message list" where
  "sample_format ms lang =
     map (\<lambda>m. m\<lparr>timestamp_m := (if lang = ''en-US'' then ''US '' else ''INTL '') @ timestamp_m m\<rparr>) ms"

text \<open>
  The user id is read from the header \<^verbatim>\<open>user_principal_id\<close>; the gate rejects the
  text \<^verbatim>\<open>unsafe\<close>; the directory knows agents for session \<^verbatim>\<open>s1\<close> only.
\<close>

definition sample_env :: "store env" where
  "sample_env =
     \<lparr> get_authenticated_user_details = (\<lambda>h. \<lparr>user_principal_id = map_of h ''user_principal_id''\<rparr>),
       rai_success = (\<lambda>text strict. text \<noteq> ''unsafe''),
       get_database = list_memory_store,
       get_ai_project_client = Inr (AIProjectClient 1),
       client_close = (\<lambda>c. None),
       create_agent = (\<lambda>ty sid uid st cl. if sid = ''s1'' then Some sample_agent else None),
       create_all_agents = (\<lambda>sid uid st cl ty. if sid = ''s1'' then Some sample_agent else None),
       format_dates_in_messages = sample_format \<rparr>"

definition sample_world :: "store world" where
  "sample_world = \<lparr> db = sample_store, user_local_browser_language = ''en-US'', calls = [] \<rparr>"

definition request_of :: "string \<Rightarrow> request" where
  "request_of uid = \<lparr> headers = [(''user_principal_id'', uid)] \<rparr>"

definition anonymous_request :: request where
  "anonymous_request = \<lparr> headers = [] \<rparr>"

definition sample_feedback :: "string option \<Rightarrow> string \<Rightarrow> bool \<Rightarrow> human_feedback" where
  "sample_feedback sid sess ok =
     \<lparr> step_id = sid, plan_id_f = ''p1'', session_id_f = sess, approved = ok,
       human_feedback_f = None, updated_action_f = None, user_id_f = ''u1'' \<rparr>"

definition sample_clarification :: "string \<Rightarrow> string \<Rightarrow> human_clarification" where
  "sample_clarification sess txt =
     \<lparr> plan_id_c = ''p1'', session_id_c = sess, human_clarification_c = txt,
       user_id_c = ''u1'' \<rparr>"

section \<open>Effects of the shared steps\<close>

lemma calls_emit: "calls (emit e w) = calls w @ [e]"
  by (simp add: emit_def)

lemma db_emit: "db (emit e w) = db w"
  by (simp add: emit_def)

lemma language_emit: "user_local_browser_language (emit e w) = user_local_browser_language w"
  by (simp add: emit_def)

lemma acquire_client_fst: "fst (acquire_client env w) = acquired env"
  by (simp add: acquire_client_def acquired_def split: sum.splits)

lemma acquire_client_db: "db (snd (acquire_client env w)) = db w"
  by (simp add: acquire_client_def db_emit split: sum.splits)

lemma acquire_client_language:
  "user_local_browser_language (snd (acquire_client env w)) = user_local_browser_language w"
  by (simp add: acquire_client_def language_emit split: sum.splits)

lemma acquire_client_calls:
  "calls (snd (acquire_client env w)) =
     calls w @ (case get_ai_project_client env of
                  Inr c \<Rightarrow> [Call_get_ai_project_client]
                | Inl e \<Rightarrow> [Call_get_ai_project_client, Call_logging_error])"
  by (simp add: acquire_client_def calls_emit split: sum.splits)

lemma close_client_db: "db (close_client env cl w) = db w"
  by (simp add: close_client_def db_emit split: option.splits)

lemma close_client_calls:
  "calls (close_client env cl w) =
     calls w @ (case cl of
                  None \<Rightarrow> []
                | Some c \<Rightarrow> (case client_close env c of
                               None \<Rightarrow> [Call_client_close c]
                             | Some e \<Rightarrow> [Call_client_close c, Call_logging_error]))"
  by (simp add: close_client_def calls_emit split: option.splits)

lemma new_calls_append: "calls w' = calls w @ xs \<Longrightarrow> new_calls w w' = xs"
  by (simp add: new_calls_def)

lemmas effects = calls_emit db_emit language_emit acquire_client_fst acquire_client_db
  acquire_client_language acquire_client_calls close_client_db close_client_calls

lemmas sample_defs = sample_env_def sample_world_def sample_store_def sample_agent_def
  sample_clarification_def sample_feedback_def request_of_def anonymous_request_def
  list_memory_store_def sample_plan_def sample_step_def sample_message_def sample_format_def

text \<open>The feedback and the clarification handler only append to the log.\<close>

lemma new_calls_prefix: "calls w' = calls w @ xs \<Longrightarrow> calls w' = calls w @ new_calls w w'"
  by (simp add: new_calls_def)

lemma feedback_calls_grow:
  "calls (snd (human_feedback_endpoint env hf req w))
     = calls w @ new_calls w (snd (human_feedback_endpoint env hf req w))"
proof -
  have "\<exists>xs. calls (snd (human_feedback_endpoint env hf req w)) = calls w @ xs"
    by (simp add: human_feedback_endpoint_def Let_def split_def effects
          split: option.splits sum.splits)
  then show ?thesis
    by (auto dest: new_calls_prefix)
qed

lemma clarification_calls_grow:
  "calls (snd (human_clarification_endpoint env hc req w))
     = calls w @ new_calls w (snd (human_clarification_endpoint env hc req w))"
proof -
  have "\<exists>xs. calls (snd (human_clarification_endpoint env hc req w)) = calls w @ xs"
    by (simp add: human_clarification_endpoint_def Let_def split_def effects
          split: option.splits sum.splits)
  then show ?thesis
    by (auto dest: new_calls_prefix)
qed

section \<open>Clarification rejected by the Content Safety Gate\<close>

text \<open>
  Claim C3. For every clarification request whose text fails the Content Safety Gate, the
  operation fails with ContentRejected carrying at least one remediation suggestion, the
  Agent Directory is never consulted, and the Plan is left unmodified: the handler adds
  to the log only calls that are not Agent Directory calls, and the store contents after
  the call are the store contents before it.
\<close>

theorem clarification_gate_rejection:
  assumes "\<not> rai_success env (human_clarification_c hc) False"
    and "human_clarification_endpoint env hc req w = (r, w')"
  shows "r = Inl ContentRejected \<and> 1 \<le> length (suggestions ContentRejected)
       \<and> calls w' = calls w @ new_calls w w'
       \<and> \<not> list_ex agent_directory_call (new_calls w w')
       \<and> db w' = db w"
proof -
  let ?new = "[Call_rai_success (human_clarification_c hc) False, Call_print ''RAI failed'',
               Call_track_event ''RAI failed''
                 [(''status'', JStr ''Clarification rejected - RAI validation failed''),
                  (''description'', JStr (human_clarification_c hc)),
                  (''session_id'', JStr (session_id_c hc))]]"
  from assms have r: "r = Inl (HTTPException 400 rai_detail)"
    and w': "w' = emit (Call_track_event ''RAI failed''
                    [(''status'', JStr ''Clarification rejected - RAI validation failed''),
                     (''description'', JStr (human_clarification_c hc)),
                     (''session_id'', JStr (session_id_c hc))])
              (emit (Call_print ''RAI failed'')
                 (emit (Call_rai_success (human_clarification_c hc) False) w))"
    by (simp_all add: human_clarification_endpoint_def Let_def)
  have c: "calls w' = calls w @ ?new"
    by (simp add: w' calls_emit)
  have n: "new_calls w w' = ?new"
    by (rule new_calls_append) (rule c)
  have "1 \<le> length (suggestions ContentRejected)"
    by (simp add: ContentRejected_def rai_detail_def)
  moreover have "db w' = db w"
    by (simp add: w' db_emit)
  moreover have "\<not> list_ex agent_directory_call (new_calls w w')"
    by (simp add: n)
  ultimately show ?thesis
    using r c n by (simp add: ContentRejected_def)
qed

theorem clarification_gate_rejection_witness:
  "\<not> rai_success sample_env (human_clarification_c (sample_clarification ''s1'' ''unsafe'')) False
   \<and> fst (human_clarification_endpoint sample_env (sample_clarification ''s1'' ''unsafe'')
            (request_of ''u1'') sample_world) = Inl ContentRejected
   \<and> length (suggestions ContentRejected) = 4
   \<and> \<not> list_ex agent_directory_call
        (new_calls sample_world
           (snd (human_clarification_endpoint sample_env (sample_clarification ''s1'' ''unsafe'')
                   (request_of ''u1'') sample_world)))
   \<and> db (snd (human_clarification_endpoint sample_env (sample_clarification ''s1'' ''unsafe'')
                (request_of ''u1'') sample_world)) = sample_store"
proof -
  have h: "\<not> rai_success sample_env (human_clarification_c (sample_clarification ''s1'' ''unsafe'')) False"
    by (simp add: sample_env_def sample_clarification_def)
  have d: "db sample_world = sample_store"
    by (simp add: sample_world_def)
  have s: "length (suggestions ContentRejected) = 4"
    by (simp add: ContentRejected_def rai_detail_def)
  show ?thesis
    using h d s clarification_gate_rejection [OF h surjective_pairing, of "request_of ''u1''" sample_world]
    by simp
qed

section \<open>Failing before the store is reached\<close>

lemma not_truthy_cases: "\<not> truthy u \<Longrightarrow> u = None \<or> u = Some []"
  by (cases u) auto

lemma fails_before_storeI:
  "fst out = Inl e \<Longrightarrow> calls (snd out) = calls w @ xs \<Longrightarrow> \<not> list_ex store_call xs \<Longrightarrow>
   db (snd out) = db w \<Longrightarrow> fails_before_store e w out"
  by (simp add: fails_before_store_def new_calls_def)

lemma feedback_unauthenticated:
  assumes "\<not> truthy (user_principal_id (get_authenticated_user_details env (headers req)))"
  shows "fails_before_store Unauthenticated w (human_feedback_endpoint env hf req w)"
  using not_truthy_cases [OF assms]
  by (auto intro!: fails_before_storeI simp: human_feedback_endpoint_def Let_def Unauthenticated_def effects)

lemma approve_unauthenticated:
  assumes "\<not> truthy (user_principal_id (get_authenticated_user_details env (headers req)))"
  shows "fails_before_store Unauthenticated w (approve_step_endpoint env hf req w)"
  using not_truthy_cases [OF assms]
  by (auto intro!: fails_before_storeI simp: approve_step_endpoint_def Let_def Unauthenticated_def effects)

lemma get_plans_unauthenticated:
  assumes "\<not> truthy (user_principal_id (get_authenticated_user_details env (headers req)))"
  shows "fails_before_store Unauthenticated w (get_plans env req pid w)"
  using not_truthy_cases [OF assms]
  by (auto intro!: fails_before_storeI simp: get_plans_def Let_def Unauthenticated_def effects)

lemma get_steps_unauthenticated:
  assumes "\<not> truthy (user_principal_id (get_authenticated_user_details env (headers req)))"
  shows "fails_before_store Unauthenticated w (get_steps_by_plan_endpoint env plid req w)"
  using not_truthy_cases [OF assms]
  by (auto intro!: fails_before_storeI simp: get_steps_by_plan_endpoint_def Let_def Unauthenticated_def effects)

lemma get_agent_messages_unauthenticated:
  assumes "\<not> truthy (user_principal_id (get_authenticated_user_details env (headers req)))"
  shows "fails_before_store Unauthenticated w (get_agent_messages env sid req w)"
  using not_truthy_cases [OF assms]
  by (auto intro!: fails_before_storeI simp: get_agent_messages_def Let_def Unauthenticated_def effects)

lemma clarification_unauthenticated:
  assumes "\<not> truthy (user_principal_id (get_authenticated_user_details env (headers req)))"
  shows "fails_before_store
           (if rai_success env (human_clarification_c hc) False then Unauthenticated else ContentRejected)
           w (human_clarification_endpoint env hc req w)"
  using not_truthy_cases [OF assms]
  by (auto intro!: fails_before_storeI
        simp: human_clarification_endpoint_def Let_def Unauthenticated_def ContentRejected_def effects)

text \<open>
  Claim C4, as amended. If no user id can be resolved from the request (the resolver
  yields \<^verbatim>\<open>None\<close> or the empty string), then submit feedback, approve step(s), list
  plans, list steps and list agent messages fail with Unauthenticated, and submit
  clarification fails with Unauthenticated when its text passes the Content Safety Gate
  and with ContentRejected when it does not. In all six handlers the failure comes before
  any store access: the calls added to the log contain no store call, and the store
  contents are unchanged.
\<close>

theorem unauthenticated_before_store:
  assumes "\<not> truthy (user_principal_id (get_authenticated_user_details env (headers req)))"
  shows "fails_before_store Unauthenticated w (human_feedback_endpoint env hf req w)
       \<and> fails_before_store Unauthenticated w (approve_step_endpoint env hf req w)
       \<and> fails_before_store Unauthenticated w (get_plans env req pid w)
       \<and> fails_before_store Unauthenticated w (get_steps_by_plan_endpoint env plid req w)
       \<and> fails_before_store Unauthenticated w (get_agent_messages env sid req w)
       \<and> fails_before_store
            (if rai_success env (human_clarification_c hc) False then Unauthenticated else ContentRejected)
            w (human_clarification_endpoint env hc req w)"
  using assms
  by (simp add: feedback_unauthenticated approve_unauthenticated get_plans_unauthenticated
        get_steps_unauthenticated get_agent_messages_unauthenticated clarification_unauthenticated)

theorem unauthenticated_before_store_witness:
  "\<not> truthy (user_principal_id (get_authenticated_user_details sample_env (headers anonymous_request)))
   \<and> fails_before_store Unauthenticated sample_world
        (human_feedback_endpoint sample_env (sample_feedback (Some ''a'') ''s1'' True)
           anonymous_request sample_world)
   \<and> fails_before_store Unauthenticated sample_world
        (get_plans sample_env anonymous_request (Some ''p1'') sample_world)
   \<and> fails_before_store Unauthenticated sample_world
        (human_clarification_endpoint sample_env (sample_clarification ''s1'' ''fine'')
           anonymous_request sample_world)
   \<and> fst (get_agent_messages sample_env ''s1'' anonymous_request sample_world) = Inl Unauthenticated"
proof -
  have h: "\<not> truthy (user_principal_id
             (get_authenticated_user_details sample_env (headers anonymous_request)))"
    by (simp add: sample_env_def anonymous_request_def)
  have g: "rai_success sample_env (human_clarification_c (sample_clarification ''s1'' ''fine'')) False"
    by (simp add: sample_env_def sample_clarification_def)
  show ?thesis
    using h g
      unauthenticated_before_store [OF h, of sample_world "sample_feedback (Some ''a'') ''s1'' True"
        "Some ''p1''" "''p1''" "''s1''" "sample_clarification ''s1'' ''fine''"]
    by (simp add: fails_before_store_def)
qed

text \<open>
  Claim C4 as stated fails for submit clarification: the gate is asked before the
  resolver, so an anonymous request whose text the gate rejects fails with
  ContentRejected, not with Unauthenticated. Here the user id header is the empty string
  and the text is \<^verbatim>\<open>unsafe\<close>.
\<close>

theorem unauthenticated_clarification_counterexample:
  "\<not> truthy (user_principal_id (get_authenticated_user_details sample_env (headers (request_of []))))
   \<and> fst (human_clarification_endpoint sample_env (sample_clarification ''s2'' ''unsafe'')
            (request_of []) sample_world) = Inl ContentRejected
   \<and> ContentRejected \<noteq> Unauthenticated"
  by (simp add: human_clarification_endpoint_def Let_def sample_env_def request_of_def
        sample_clarification_def ContentRejected_def Unauthenticated_def rai_detail_def)

section \<open>The order of gate and resolver in a clarification request\<close>

text \<open>
  Claim C5, as amended. For every clarification request the Content Safety Gate runs
  before the Identity Resolver: the gate call is the first call the handler makes; when
  the gate rejects the text the operation fails with ContentRejected and the resolver is
  never consulted, whether or not a user id would resolve; when the gate accepts the text
  and no user id resolves, the operation fails with Unauthenticated, after the gate call
  and the resolver call.
\<close>

theorem gate_before_identity:
  assumes "human_clarification_endpoint env hc req w = (r, w')"
  shows "calls w' = calls w @ new_calls w w'
       \<and> take 1 (new_calls w w') = [Call_rai_success (human_clarification_c hc) False]
       \<and> (\<not> rai_success env (human_clarification_c hc) False \<longrightarrow>
            r = Inl ContentRejected \<and> Call_get_authenticated_user_details \<notin> set (new_calls w w'))
       \<and> (rai_success env (human_clarification_c hc) False \<and>
          \<not> truthy (user_principal_id (get_authenticated_user_details env (headers req))) \<longrightarrow>
            r = Inl Unauthenticated \<and>
            new_calls w w' =
              [Call_rai_success (human_clarification_c hc) False,
               Call_get_authenticated_user_details,
               Call_track_event ''UserIdNotFound''
                 [(''status_code'', JInt 400), (''detail'', JStr ''no user'')]])"
proof -
  have out: "r = fst (human_clarification_endpoint env hc req w)"
            "w' = snd (human_clarification_endpoint env hc req w)"
    using assms by simp_all
  have first: "take 1 (new_calls w w') = [Call_rai_success (human_clarification_c hc) False]"
    unfolding out new_calls_def
    by (simp add: human_clarification_endpoint_def Let_def split_def effects
          split: option.splits sum.splits)
  have rejected: "r = Inl ContentRejected \<and> Call_get_authenticated_user_details \<notin> set (new_calls w w')"
    if "\<not> rai_success env (human_clarification_c hc) False"
    using that unfolding out new_calls_def
    by (simp add: human_clarification_endpoint_def Let_def ContentRejected_def effects)
  have anonymous: "r = Inl Unauthenticated \<and>
            new_calls w w' =
              [Call_rai_success (human_clarification_c hc) False,
               Call_get_authenticated_user_details,
               Call_track_event ''UserIdNotFound''
                 [(''status_code'', JInt 400), (''detail'', JStr ''no user'')]]"
    if "rai_success env (human_clarification_c hc) False"
      and "\<not> truthy (user_principal_id (get_authenticated_user_details env (headers req)))"
    using that(1) not_truthy_cases [OF that(2)] unfolding out new_calls_def
    by (auto simp: human_clarification_endpoint_def Let_def Unauthenticated_def effects)
  have grow: "calls w' = calls w @ new_calls w w'"
    unfolding out by (rule clarification_calls_grow)
  show ?thesis
    using grow first rejected anonymous by blast
qed

theorem gate_before_identity_witness:
  "fst (human_clarification_endpoint sample_env (sample_clarification ''s1'' ''unsafe'')
          anonymous_request sample_world) = Inl ContentRejected
   \<and> Call_get_authenticated_user_details \<notin>
        set (new_calls sample_world
               (snd (human_clarification_endpoint sample_env (sample_clarification ''s1'' ''unsafe'')
                       anonymous_request sample_world)))
   \<and> fst (human_clarification_endpoint sample_env (sample_clarification ''s1'' ''fine'')
            anonymous_request sample_world) = Inl Unauthenticated"
proof -
  have h: "\<not> rai_success sample_env (human_clarification_c (sample_clarification ''s1'' ''unsafe'')) False"
    by (simp add: sample_env_def sample_clarification_def)
  have g: "rai_success sample_env (human_clarification_c (sample_clarification ''s1'' ''fine'')) False"
    by (simp add: sample_env_def sample_clarification_def)
  have a: "\<not> truthy (user_principal_id
             (get_authenticated_user_details sample_env (headers anonymous_request)))"
    by (simp add: sample_env_def anonymous_request_def)
  show ?thesis
    using h g a
      gate_before_identity [where env = sample_env and req = anonymous_request
        and w = sample_world and hc = "sample_clarification ''s1'' ''unsafe''",
        OF surjective_pairing]
      gate_before_identity [where env = sample_env and req = anonymous_request
        and w = sample_world and hc = "sample_clarification ''s1'' ''fine''",
        OF surjective_pairing]
    by simp
qed

text \<open>
  Claim C5 as stated fails: for a request that lacks a user id and carries text the gate
  rejects, the operation does not fail with Unauthenticated, and the gate is consulted
  (its call is the first entry of the log).
\<close>

theorem identity_before_gate_counterexample:
  "\<not> truthy (user_principal_id (get_authenticated_user_details sample_env (headers anonymous_request)))
   \<and> \<not> rai_success sample_env (human_clarification_c (sample_clarification ''s1'' ''unsafe'')) False
   \<and> fst (human_clarification_endpoint sample_env (sample_clarification ''s1'' ''unsafe'')
            anonymous_request sample_world) \<noteq> Inl Unauthenticated
   \<and> calls (snd (human_clarification_endpoint sample_env (sample_clarification ''s1'' ''unsafe'')
                   anonymous_request sample_world)) =
       [Call_rai_success ''unsafe'' False, Call_print ''RAI failed'',
        Call_track_event ''RAI failed''
          [(''status'', JStr ''Clarification rejected - RAI validation failed''),
           (''description'', JStr ''unsafe''), (''session_id'', JStr ''s1'')]]"
  by (simp add: human_clarification_endpoint_def Let_def sample_env_def anonymous_request_def
        sample_clarification_def sample_world_def Unauthenticated_def rai_detail_def emit_def)

section \<open>Feedback without an agent\<close>

text \<open>
  Claim C8. For every feedback request of a resolved user for which the Agent Directory
  yields no human agent for the session, the operation fails with AgentNotFound, the
  store contents are unchanged (so no Step is mutated), and no feedback handler is called.
\<close>

theorem feedback_agent_not_found:
  assumes "user_principal_id (get_authenticated_user_details env (headers req)) = Some uid"
    and "uid \<noteq> []"
    and "create_agent env HUMAN (session_id_f hf) uid (db w) (acquired env) = None"
    and "human_feedback_endpoint env hf req w = (r, w')"
  shows "r = Inl AgentNotFound \<and> db w' = db w
       \<and> calls w' = calls w @ new_calls w w'
       \<and> Call_handle_human_feedback \<notin> set (new_calls w w')"
proof -
  have out: "r = fst (human_feedback_endpoint env hf req w)"
            "w' = snd (human_feedback_endpoint env hf req w)"
    using assms(4) by simp_all
  have grow: "calls w' = calls w @ new_calls w w'"
    unfolding out by (rule feedback_calls_grow)
  have "r = Inl AgentNotFound \<and> db w' = db w
          \<and> Call_handle_human_feedback \<notin> set (new_calls w w')"
    using assms(1-3) unfolding out new_calls_def
    by (simp add: human_feedback_endpoint_def Let_def split_def AgentNotFound_def effects
          split: sum.splits)
  then show ?thesis
    using grow by simp
qed

theorem feedback_agent_not_found_witness:
  "create_agent sample_env HUMAN (session_id_f (sample_feedback (Some ''a'') ''s9'' True)) ''u1''
     (db sample_world) (acquired sample_env) = None
   \<and> fst (human_feedback_endpoint sample_env (sample_feedback (Some ''a'') ''s9'' True)
            (request_of ''u1'') sample_world) = Inl AgentNotFound
   \<and> db (snd (human_feedback_endpoint sample_env (sample_feedback (Some ''a'') ''s9'' True)
                (request_of ''u1'') sample_world)) = sample_store"
proof -
  have u: "user_principal_id (get_authenticated_user_details sample_env (headers (request_of ''u1'')))
             = Some ''u1''"
    by (simp add: sample_env_def request_of_def)
  have n: "''u1'' \<noteq> []"
    by simp
  have a: "create_agent sample_env HUMAN (session_id_f (sample_feedback (Some ''a'') ''s9'' True)) ''u1''
             (db sample_world) (acquired sample_env) = None"
    by (simp add: sample_env_def sample_feedback_def)
  have d: "db sample_world = sample_store"
    by (simp add: sample_world_def)
  show ?thesis
    using a d feedback_agent_not_found [OF u n a surjective_pairing]
    by simp
qed

section \<open>Release of the execution client\<close>

lemma feedback_client_closed:
  assumes "get_ai_project_client env = Inr c"
  shows "(Call_client_close c \<in> set (new_calls w (snd (human_feedback_endpoint env hf req w))))
           = (\<exists>j. fst (human_feedback_endpoint env hf req w) = Inr j)"
  using assms unfolding new_calls_def
  by (simp add: human_feedback_endpoint_def Let_def split_def effects acquired_def
        split: option.splits)

lemma clarification_client_closed:
  assumes "get_ai_project_client env = Inr c"
  shows "(Call_client_close c \<in> set (new_calls w (snd (human_clarification_endpoint env hc req w))))
           = (\<exists>j. fst (human_clarification_endpoint env hc req w) = Inr j)"
  using assms unfolding new_calls_def
  by (simp add: human_clarification_endpoint_def Let_def split_def effects acquired_def
        split: option.splits)

text \<open>
  Claim C9 does not hold of the code. When the client factory returns a handle \<open>c\<close>, the
  feedback and the clarification handler call \<^verbatim>\<open>c.close()\<close> exactly when the operation
  succeeds: on every failing exit (no user, no agent, an error raised by the agent's
  handler) the handle acquired for the request is never closed.
\<close>

theorem client_closed_only_on_success:
  assumes "get_ai_project_client env = Inr c"
  shows "calls (snd (human_feedback_endpoint env hf req w))
           = calls w @ new_calls w (snd (human_feedback_endpoint env hf req w))
       \<and> calls (snd (human_clarification_endpoint env hc req w))
           = calls w @ new_calls w (snd (human_clarification_endpoint env hc req w))
       \<and> ((Call_client_close c \<in> set (new_calls w (snd (human_feedback_endpoint env hf req w))))
            = (\<exists>j. fst (human_feedback_endpoint env hf req w) = Inr j))
       \<and> ((Call_client_close c \<in> set (new_calls w (snd (human_clarification_endpoint env hc req w))))
            = (\<exists>j. fst (human_clarification_endpoint env hc req w) = Inr j))"
  using feedback_client_closed [OF assms] clarification_client_closed [OF assms]
    feedback_calls_grow clarification_calls_grow
  by blast

text \<open>
  At the failing inputs: a feedback request for session \<^verbatim>\<open>s9\<close>, which has no agent, and a
  clarification whose handler raises. Both acquire the client and leave it open.
\<close>

theorem client_closed_only_on_success_witness:
  "get_ai_project_client sample_env = Inr (AIProjectClient 1)
   \<and> fst (human_feedback_endpoint sample_env (sample_feedback (Some ''a'') ''s9'' True)
            (request_of ''u1'') sample_world) = Inl AgentNotFound
   \<and> Call_get_ai_project_client \<in>
        set (calls (snd (human_feedback_endpoint sample_env (sample_feedback (Some ''a'') ''s9'' True)
                           (request_of ''u1'') sample_world)))
   \<and> Call_client_close (AIProjectClient 1) \<notin>
        set (new_calls sample_world
               (snd (human_feedback_endpoint sample_env (sample_feedback (Some ''a'') ''s9'' True)
                       (request_of ''u1'') sample_world)))
   \<and> fst (human_clarification_endpoint sample_env (sample_clarification ''s1'' ''raise'')
            (request_of ''u1'') sample_world) = Inl (Exception ''RuntimeError'')
   \<and> Call_get_ai_project_client \<in>
        set (calls (snd (human_clarification_endpoint sample_env (sample_clarification ''s1'' ''raise'')
                           (request_of ''u1'') sample_world)))
   \<and> Call_client_close (AIProjectClient 1) \<notin>
        set (new_calls sample_world
               (snd (human_clarification_endpoint sample_env (sample_clarification ''s1'' ''raise'')
                       (request_of ''u1'') sample_world)))"
proof -
  have h: "get_ai_project_client sample_env = Inr (AIProjectClient 1)"
    by (simp add: sample_env_def)
  have f: "fst (human_feedback_endpoint sample_env (sample_feedback (Some ''a'') ''s9'' True)
                  (request_of ''u1'') sample_world) = Inl AgentNotFound"
    by (simp add: human_feedback_endpoint_def Let_def split_def sample_defs AgentNotFound_def
          acquire_client_def emit_def)
  have fa: "Call_get_ai_project_client \<in>
        set (calls (snd (human_feedback_endpoint sample_env (sample_feedback (Some ''a'') ''s9'' True)
                           (request_of ''u1'') sample_world)))"
    by (simp add: human_feedback_endpoint_def Let_def split_def sample_defs
          acquire_client_def emit_def)
  have c: "fst (human_clarification_endpoint sample_env (sample_clarification ''s1'' ''raise'')
                  (request_of ''u1'') sample_world) = Inl (Exception ''RuntimeError'')"
    by (simp add: human_clarification_endpoint_def Let_def split_def sample_defs
          acquire_client_def emit_def)
  have ca: "Call_get_ai_project_client \<in>
        set (calls (snd (human_clarification_endpoint sample_env (sample_clarification ''s1'' ''raise'')
                           (request_of ''u1'') sample_world)))"
    by (simp add: human_clarification_endpoint_def Let_def split_def sample_defs
          acquire_client_def emit_def)
  show ?thesis
    using h f fa c ca
      client_closed_only_on_success [OF h, where w = sample_world
        and hf = "sample_feedback (Some ''a'') ''s9'' True" and req = "request_of ''u1''"
        and hc = "sample_clarification ''s1'' ''raise''"]
    by simp
qed

section \<open>The status string of an approval\<close>

text \<open>
  Claim C6. For every successful approval request: if a step id is present (a non-empty
  string; the handler tests \<^verbatim>\<open>if human_feedback.step_id\<close>, so \<^verbatim>\<open>None\<close> and the empty
  string both count as absent), the returned status string is
  \<^verbatim>\<open>Step <step_id> - Approval:<approved>.\<close>, naming the step and the approval value; if no
  step id is present, it is exactly \<^verbatim>\<open>All steps approved\<close>.
\<close>

theorem approve_step_status:
  assumes "approve_step_endpoint env hf req w = (Inr resp, w')"
  shows "(\<forall>sid. step_id hf = Some sid \<and> sid \<noteq> [] \<longrightarrow>
            resp = JDict [(''status'',
                           JStr (''Step '' @ sid @ '' - Approval:'' @ str_bool (approved hf) @ ''.''))])
       \<and> (\<not> truthy (step_id hf) \<longrightarrow> resp = JDict [(''status'', JStr ''All steps approved'')])"
proof -
  have out: "fst (approve_step_endpoint env hf req w) = Inr resp"
    using assms by simp
  show ?thesis
    using out
    by (auto simp: approve_step_endpoint_def Let_def split_def
          split: option.splits if_splits dest: not_truthy_cases)
qed

theorem approve_step_status_witness:
  "fst (approve_step_endpoint sample_env (sample_feedback (Some ''a'') ''s1'' True)
          (request_of ''u1'') sample_world)
     = Inr (JDict [(''status'', JStr ''Step a - Approval:True.'')])
   \<and> fst (approve_step_endpoint sample_env (sample_feedback None ''s1'' True)
            (request_of ''u1'') sample_world)
     = Inr (JDict [(''status'', JStr ''All steps approved'')])"
proof -
  obtain j1 where r1: "fst (approve_step_endpoint sample_env (sample_feedback (Some ''a'') ''s1'' True)
          (request_of ''u1'') sample_world) = Inr j1"
    by (simp add: approve_step_endpoint_def Let_def split_def sample_defs acquire_client_def
          close_client_def emit_def)
  obtain j2 where r2: "fst (approve_step_endpoint sample_env (sample_feedback None ''s1'' True)
          (request_of ''u1'') sample_world) = Inr j2"
    by (simp add: approve_step_endpoint_def Let_def split_def sample_defs acquire_client_def
          close_client_def emit_def)
  have s1: "step_id (sample_feedback (Some ''a'') ''s1'' True) = Some ''a''"
       "approved (sample_feedback (Some ''a'') ''s1'' True)"
    by (simp_all add: sample_feedback_def)
  have s2: "\<not> truthy (step_id (sample_feedback None ''s1'' True))"
    by (simp add: sample_feedback_def)
  have e1: "approve_step_endpoint sample_env (sample_feedback (Some ''a'') ''s1'' True)
          (request_of ''u1'') sample_world = (Inr j1, snd (approve_step_endpoint sample_env (sample_feedback (Some ''a'') ''s1'' True)
          (request_of ''u1'') sample_world))"
    using r1 by (metis surjective_pairing)
  have e2: "approve_step_endpoint sample_env (sample_feedback None ''s1'' True)
          (request_of ''u1'') sample_world = (Inr j2, snd (approve_step_endpoint sample_env (sample_feedback None ''s1'' True)
          (request_of ''u1'') sample_world))"
    using r2 by (metis surjective_pairing)
  show ?thesis
    using r1 r2 s1 s2 approve_step_status [OF e1] approve_step_status [OF e2]
    by simp
qed

section \<open>Listing one plan\<close>

lemma count_status_sum:
  "count_status Planned ss + count_status AwaitingApproval ss + count_status Approved ss
     + count_status Rejected ss + count_status Completed ss + count_status Failed ss = length ss"
proof (induction ss)
  case Nil
  show ?case by (simp add: count_status_def)
next
  case (Cons s ss)
  then show ?case
    by (cases "status_s s") (simp_all add: count_status_def)
qed

lemma update_step_counts_fields:
  "steps (update_step_counts (PlanWithSteps p ss)) = ss"
  "plan.truncate (update_step_counts (PlanWithSteps p ss)) = p"
  "total_steps (update_step_counts (PlanWithSteps p ss)) = length ss"
  "count_planned (update_step_counts (PlanWithSteps p ss)) = count_status Planned ss"
  "count_awaiting_approval (update_step_counts (PlanWithSteps p ss)) = count_status AwaitingApproval ss"
  "count_approved (update_step_counts (PlanWithSteps p ss)) = count_status Approved ss"
  "count_rejected (update_step_counts (PlanWithSteps p ss)) = count_status Rejected ss"
  "count_completed (update_step_counts (PlanWithSteps p ss)) = count_status Completed ss"
  "count_failed (update_step_counts (PlanWithSteps p ss)) = count_status Failed ss"
  by (simp_all add: update_step_counts_def PlanWithSteps_def plan.defs plan_with_steps.defs)

lemma get_plans_not_found:
  assumes "user_principal_id (get_authenticated_user_details env (headers req)) = Some uid"
    and "uid \<noteq> []" and "pid \<noteq> []"
    and "get_plan_by_plan_id (get_database env uid) (db w) pid = None"
  shows "fst (get_plans env req (Some pid) w) = Inl PlanNotFound"
  using assms by (simp add: get_plans_def Let_def PlanNotFound_def effects)

lemma get_plans_found:
  assumes "user_principal_id (get_authenticated_user_details env (headers req)) = Some uid"
    and "uid \<noteq> []" and "pid \<noteq> []"
    and "get_plan_by_plan_id (get_database env uid) (db w) pid = Some p"
  shows "fst (get_plans env req (Some pid) w) =
           Inr [Item_plan (update_step_counts
                             (PlanWithSteps p (get_steps_by_plan (get_database env uid) (db w) (id_p p)))),
                Item_messages
                  (format_dates_in_messages env
                     (get_data_by_type_and_session_id (get_database env uid) (db w)
                        ''agent_message'' (session_id_p p))
                     (user_local_browser_language w))]"
  using assms by (simp add: get_plans_def Let_def effects)

text \<open>
  Claim C7. For every list-plans request of a resolved user with a (non-empty) plan id:
  if the store has no Plan with that id the operation fails with PlanNotFound; otherwise
  it returns one aggregated record for that Plan, carrying the Steps just loaded for the
  Plan's id, whose per-status counts are recomputed from those Steps and sum to the total
  Step count, which is the number of Steps loaded.
\<close>

theorem get_plans_by_plan_id:
  assumes "user_principal_id (get_authenticated_user_details env (headers req)) = Some uid"
    and "uid \<noteq> []" and "pid \<noteq> []"
    and "get_plans env req (Some pid) w = (r, w')"
  shows "(get_plan_by_plan_id (get_database env uid) (db w) pid = None \<longrightarrow> r = Inl PlanNotFound)
       \<and> (\<forall>p. get_plan_by_plan_id (get_database env uid) (db w) pid = Some p \<longrightarrow>
            (\<exists>pws msgs. r = Inr [Item_plan pws, Item_messages msgs]
               \<and> plan.truncate pws = p
               \<and> steps pws = get_steps_by_plan (get_database env uid) (db w) (id_p p)
               \<and> count_planned pws = count_status Planned (steps pws)
               \<and> count_awaiting_approval pws = count_status AwaitingApproval (steps pws)
               \<and> count_approved pws = count_status Approved (steps pws)
               \<and> count_rejected pws = count_status Rejected (steps pws)
               \<and> count_completed pws = count_status Completed (steps pws)
               \<and> count_failed pws = count_status Failed (steps pws)
               \<and> total_steps pws = length (steps pws)
               \<and> count_planned pws + count_awaiting_approval pws + count_approved pws
                    + count_rejected pws + count_completed pws + count_failed pws
                  = total_steps pws))"
proof -
  have r: "r = fst (get_plans env req (Some pid) w)"
    using assms(4) by simp
  have nf: "r = Inl PlanNotFound"
    if "get_plan_by_plan_id (get_database env uid) (db w) pid = None"
    using get_plans_not_found [OF assms(1-3) that] r by simp
  have f: "\<exists>pws msgs. r = Inr [Item_plan pws, Item_messages msgs]
               \<and> plan.truncate pws = p
               \<and> steps pws = get_steps_by_plan (get_database env uid) (db w) (id_p p)
               \<and> count_planned pws = count_status Planned (steps pws)
               \<and> count_awaiting_approval pws = count_status AwaitingApproval (steps pws)
               \<and> count_approved pws = count_status Approved (steps pws)
               \<and> count_rejected pws = count_status Rejected (steps pws)
               \<and> count_completed pws = count_status Completed (steps pws)
               \<and> count_failed pws = count_status Failed (steps pws)
               \<and> total_steps pws = length (steps pws)
               \<and> count_planned pws + count_awaiting_approval pws + count_approved pws
                    + count_rejected pws + count_completed pws + count_failed pws
                  = total_steps pws"
    if "get_plan_by_plan_id (get_database env uid) (db w) pid = Some p" for p
    using get_plans_found [OF assms(1-3) that] r
    by (simp add: update_step_counts_fields count_status_sum)
  show ?thesis
    using nf f by blast
qed

theorem get_plans_by_plan_id_witness:
  "get_plan_by_plan_id (get_database sample_env ''u1'') (db sample_world) ''zz'' = None
   \<and> fst (get_plans sample_env (request_of ''u1'') (Some ''zz'') sample_world) = Inl PlanNotFound
   \<and> get_plan_by_plan_id (get_database sample_env ''u1'') (db sample_world) ''p1''
        = Some (sample_plan ''p1'' ''s1'')
   \<and> (\<exists>pws msgs.
         fst (get_plans sample_env (request_of ''u1'') (Some ''p1'') sample_world)
           = Inr [Item_plan pws, Item_messages msgs]
         \<and> steps pws = [sample_step ''a'' ''p1'' Planned, sample_step ''b'' ''p1'' Completed]
         \<and> count_planned pws + count_awaiting_approval pws + count_approved pws
              + count_rejected pws + count_completed pws + count_failed pws = total_steps pws
         \<and> total_steps pws = 2)"
proof -
  have u: "user_principal_id (get_authenticated_user_details sample_env (headers (request_of ''u1'')))
             = Some ''u1''"
    by (simp add: sample_env_def request_of_def)
  have n: "''u1'' \<noteq> []" "''zz'' \<noteq> []" "''p1'' \<noteq> []"
    by simp_all
  have a: "get_plan_by_plan_id (get_database sample_env ''u1'') (db sample_world) ''zz'' = None"
    by (simp add: sample_defs)
  have b: "get_plan_by_plan_id (get_database sample_env ''u1'') (db sample_world) ''p1''
             = Some (sample_plan ''p1'' ''s1'')"
    by (simp add: sample_defs)
  have s: "get_steps_by_plan (get_database sample_env ''u1'') (db sample_world)
             (id_p (sample_plan ''p1'' ''s1''))
           = [sample_step ''a'' ''p1'' Planned, sample_step ''b'' ''p1'' Completed]"
    by (simp add: sample_defs)
  from get_plans_by_plan_id [OF u n(1) n(2) surjective_pairing, of sample_world] a
  have nf: "fst (get_plans sample_env (request_of ''u1'') (Some ''zz'') sample_world) = Inl PlanNotFound"
    by simp
  from get_plans_by_plan_id [OF u n(1) n(3) surjective_pairing, of sample_world] b s
  have f: "\<exists>pws msgs.
         fst (get_plans sample_env (request_of ''u1'') (Some ''p1'') sample_world)
           = Inr [Item_plan pws, Item_messages msgs]
         \<and> steps pws = [sample_step ''a'' ''p1'' Planned, sample_step ''b'' ''p1'' Completed]
         \<and> count_planned pws + count_awaiting_approval pws + count_approved pws
              + count_rejected pws + count_completed pws + count_failed pws = total_steps pws
         \<and> total_steps pws = 2"
    by auto
  show ?thesis
    using a b nf f by blast
qed

section \<open>The browser language shared by all users\<close>

lemma language_endpoint_world:
  "snd (user_browser_language_endpoint env ul req2 w) =
     emit Call_logging_info
       (emit (Call_set_user_local_browser_language (language ul))
          (w\<lparr>user_local_browser_language := language ul\<rparr>))"
  by (simp add: user_browser_language_endpoint_def Let_def)

lemma language_endpoint_effect:
  "db (snd (user_browser_language_endpoint env ul req2 w)) = db w"
  "user_local_browser_language (snd (user_browser_language_endpoint env ul req2 w)) = language ul"
  by (simp_all add: language_endpoint_world db_emit language_emit)

text \<open>
  Claim C10. The single-plan listing is not a function of its request and the store
  alone. The browser-language handler, called with any request \<open>req2\<close> (any user, or
  none), overwrites the one process-wide language and leaves the store as it is; a
  list-plans call for the same request and plan after it returns the same plan record,
  with the messages formatted for the language just set. So whenever the date formatter
  renders the plan's messages differently for the two languages, the listing before and
  the listing after differ.
\<close>

theorem get_plans_reads_shared_language:
  assumes "user_principal_id (get_authenticated_user_details env (headers req)) = Some uid"
    and "uid \<noteq> []" and "pid \<noteq> []"
    and "get_plan_by_plan_id (get_database env uid) (db w) pid = Some p"
    and "msgs = get_data_by_type_and_session_id (get_database env uid) (db w)
                  ''agent_message'' (session_id_p p)"
    and "format_dates_in_messages env msgs (user_local_browser_language w)
           \<noteq> format_dates_in_messages env msgs (language ul)"
    and "user_browser_language_endpoint env ul req2 w = (r2, w2)"
  shows "db w2 = db w
       \<and> fst (get_plans env req (Some pid) w)
           = Inr [Item_plan (update_step_counts
                               (PlanWithSteps p (get_steps_by_plan (get_database env uid) (db w) (id_p p)))),
                  Item_messages (format_dates_in_messages env msgs (user_local_browser_language w))]
       \<and> fst (get_plans env req (Some pid) w2)
           = Inr [Item_plan (update_step_counts
                               (PlanWithSteps p (get_steps_by_plan (get_database env uid) (db w) (id_p p)))),
                  Item_messages (format_dates_in_messages env msgs (language ul))]
       \<and> fst (get_plans env req (Some pid) w) \<noteq> fst (get_plans env req (Some pid) w2)"
proof -
  have w2: "w2 = snd (user_browser_language_endpoint env ul req2 w)"
    using assms(7) by simp
  have d: "db w2 = db w" and l: "user_local_browser_language w2 = language ul"
    by (simp_all add: w2 language_endpoint_effect)
  have p2: "get_plan_by_plan_id (get_database env uid) (db w2) pid = Some p"
    using assms(4) d by simp
  have before: "fst (get_plans env req (Some pid) w)
           = Inr [Item_plan (update_step_counts
                               (PlanWithSteps p (get_steps_by_plan (get_database env uid) (db w) (id_p p)))),
                  Item_messages (format_dates_in_messages env msgs (user_local_browser_language w))]"
    using get_plans_found [OF assms(1-4)] assms(5) by simp
  have after: "fst (get_plans env req (Some pid) w2)
           = Inr [Item_plan (update_step_counts
                               (PlanWithSteps p (get_steps_by_plan (get_database env uid) (db w) (id_p p)))),
                  Item_messages (format_dates_in_messages env msgs (language ul))]"
    using get_plans_found [OF assms(1-3) p2] assms(5) d l by simp
  show ?thesis
    using d before after assms(6) by simp
qed

theorem get_plans_reads_shared_language_witness:
  "snd (user_browser_language_endpoint sample_env \<lparr>language = ''en-GB''\<rparr> (request_of ''u2'') sample_world)
     = sample_world\<lparr>user_local_browser_language := ''en-GB'',
                     calls := [Call_set_user_local_browser_language ''en-GB'', Call_logging_info]\<rparr>
   \<and> fst (get_plans sample_env (request_of ''u1'') (Some ''p1'') sample_world)
     \<noteq> fst (get_plans sample_env (request_of ''u1'') (Some ''p1'')
              (sample_world\<lparr>user_local_browser_language := ''en-GB'',
                 calls := [Call_set_user_local_browser_language ''en-GB'', Call_logging_info]\<rparr>))
   \<and> fst (get_plans sample_env (request_of ''u1'') (Some ''p1'') sample_world)
     = Inr [Item_plan (update_step_counts
                         (PlanWithSteps (sample_plan ''p1'' ''s1'')
                            [sample_step ''a'' ''p1'' Planned, sample_step ''b'' ''p1'' Completed])),
            Item_messages [(sample_message ''m1'' ''s1'')\<lparr>timestamp_m := ''US 2025-07-04''\<rparr>]]
   \<and> fst (get_plans sample_env (request_of ''u1'') (Some ''p1'')
              (sample_world\<lparr>user_local_browser_language := ''en-GB'',
                 calls := [Call_set_user_local_browser_language ''en-GB'', Call_logging_info]\<rparr>))
     = Inr [Item_plan (update_step_counts
                         (PlanWithSteps (sample_plan ''p1'' ''s1'')
                            [sample_step ''a'' ''p1'' Planned, sample_step ''b'' ''p1'' Completed])),
            Item_messages [(sample_message ''m1'' ''s1'')\<lparr>timestamp_m := ''INTL 2025-07-04''\<rparr>]]"
proof -
  have u: "user_principal_id (get_authenticated_user_details sample_env (headers (request_of ''u1'')))
             = Some ''u1''"
    by (simp add: sample_env_def request_of_def)
  have n: "''u1'' \<noteq> []" "''p1'' \<noteq> []"
    by simp_all
  have b: "get_plan_by_plan_id (get_database sample_env ''u1'') (db sample_world) ''p1''
             = Some (sample_plan ''p1'' ''s1'')"
    by (simp add: sample_defs)
  have s: "get_steps_by_plan (get_database sample_env ''u1'') (db sample_world)
             (id_p (sample_plan ''p1'' ''s1''))
           = [sample_step ''a'' ''p1'' Planned, sample_step ''b'' ''p1'' Completed]"
    by (simp add: sample_defs)
  have m: "[sample_message ''m1'' ''s1'']
             = get_data_by_type_and_session_id (get_database sample_env ''u1'') (db sample_world)
                 ''agent_message'' (session_id_p (sample_plan ''p1'' ''s1''))"
    by (simp add: sample_defs)
  have f1: "format_dates_in_messages sample_env [sample_message ''m1'' ''s1'']
              (user_local_browser_language sample_world)
            = [(sample_message ''m1'' ''s1'')\<lparr>timestamp_m := ''US 2025-07-04''\<rparr>]"
    by (simp add: sample_defs)
  have f2: "format_dates_in_messages sample_env [sample_message ''m1'' ''s1'']
              (language \<lparr>language = ''en-GB''\<rparr>)
            = [(sample_message ''m1'' ''s1'')\<lparr>timestamp_m := ''INTL 2025-07-04''\<rparr>]"
    by (simp add: sample_defs)
  have f: "format_dates_in_messages sample_env [sample_message ''m1'' ''s1'']
              (user_local_browser_language sample_world)
            \<noteq> format_dates_in_messages sample_env [sample_message ''m1'' ''s1'']
                 (language \<lparr>language = ''en-GB''\<rparr>)"
    unfolding f1 f2 by (simp add: sample_message_def)
  have e: "snd (user_browser_language_endpoint sample_env \<lparr>language = ''en-GB''\<rparr>
                  (request_of ''u2'') sample_world)
     = sample_world\<lparr>user_local_browser_language := ''en-GB'',
                     calls := [Call_set_user_local_browser_language ''en-GB'', Call_logging_info]\<rparr>"
    by (simp add: language_endpoint_world emit_def sample_world_def)
  have ne: "(sample_message ''m1'' ''s1'')\<lparr>timestamp_m := ''US 2025-07-04''\<rparr>
              \<noteq> (sample_message ''m1'' ''s1'')\<lparr>timestamp_m := ''INTL 2025-07-04''\<rparr>"
    by (simp add: sample_message_def)
  show ?thesis
    using e s f1 f2 ne
      get_plans_reads_shared_language [OF u n b m f surjective_pairing, of "request_of ''u2''"]
    by simp
qed

section \<open>Listing the plans of a team\<close>

text \<open>
  Claim C1 does not hold of the code. For every resolved user, the list-plans operation
  called without a plan id (\<^verbatim>\<open>None\<close> or the empty string) returns the empty list,
  whatever the user's team and its Plans: the handler builds
  \<^verbatim>\<open>list_of_plans_with_steps\<close> and then returns \<^verbatim>\<open>[]\<close> (line 713).
\<close>

theorem get_plans_team_listing_empty:
  assumes "user_principal_id (get_authenticated_user_details env (headers req)) = Some uid"
    and "uid \<noteq> []"
    and "\<not> truthy plan_id"
  shows "fst (get_plans env req plan_id w) = Inr []"
  using assms(1,2) not_truthy_cases [OF assms(3)]
  by (auto simp: get_plans_def Let_def split: option.splits)

text \<open>
  At the failing input: user \<^verbatim>\<open>u1\<close>, whose current team \<^verbatim>\<open>t1\<close> has two Plans.
\<close>

theorem get_plans_team_listing_empty_witness:
  "get_current_team (get_database sample_env ''u1'') (db sample_world) ''u1'' = Some \<lparr>id_t = ''t1''\<rparr>
   \<and> get_all_plans_by_team_id (get_database sample_env ''u1'') (db sample_world) ''t1''
        = [sample_plan ''p1'' ''s1'', sample_plan ''p2'' ''s2'']
   \<and> fst (get_plans sample_env (request_of ''u1'') None sample_world) = Inr []"
proof -
  have u: "user_principal_id (get_authenticated_user_details sample_env (headers (request_of ''u1'')))
             = Some ''u1''"
    by (simp add: sample_env_def request_of_def)
  have n: "''u1'' \<noteq> []"
    by simp
  have t: "\<not> truthy None"
    by simp
  have c: "get_current_team (get_database sample_env ''u1'') (db sample_world) ''u1''
             = Some \<lparr>id_t = ''t1''\<rparr>"
    by (simp add: sample_defs)
  have a: "get_all_plans_by_team_id (get_database sample_env ''u1'') (db sample_world) ''t1''
             = [sample_plan ''p1'' ''s1'', sample_plan ''p2'' ''s2'']"
    by (simp add: sample_defs)
  show ?thesis
    using c a get_plans_team_listing_empty [OF u n t, of sample_world]
    by simp
qed

section \<open>Listing agent messages\<close>

text \<open>
  Claim C2 does not hold of the code. The handler never passes its \<open>session_id\<close> to the
  store (it calls \<^verbatim>\<open>get_data_by_type("agent_message")\<close>), so its result is the same for
  every session id; for the in-memory store, a request for session \<^verbatim>\<open>s1\<close> returns the
  message of session \<^verbatim>\<open>s2\<close> as well.
\<close>

theorem get_agent_messages_ignores_session:
  "get_agent_messages env s1 req w = get_agent_messages env s2 req w
   \<and> fst (get_agent_messages sample_env ''s1'' (request_of ''u1'') sample_world)
       = Inr [sample_message ''m1'' ''s1'', sample_message ''m2'' ''s2'']
   \<and> session_id_m (sample_message ''m2'' ''s2'') \<noteq> ''s1''"
proof -
  have "get_agent_messages env s1 req w = get_agent_messages env s2 req w"
    by (simp add: get_agent_messages_def)
  moreover have "fst (get_agent_messages sample_env ''s1'' (request_of ''u1'') sample_world)
       = Inr [sample_message ''m1'' ''s1'', sample_message ''m2'' ''s2'']"
    by (simp add: get_agent_messages_def Let_def sample_env_def request_of_def sample_world_def
          sample_store_def list_memory_store_def db_emit)
  moreover have "session_id_m (sample_message ''m2'' ''s2'') \<noteq> ''s1''"
    by (simp add: sample_message_def)
  ultimately show ?thesis
    by blast
qed

end
